theory Spec2Isabelle
  imports Complex_Main
begin

section \<open>JavaScript values used by the pipeline\<close>

text \<open>
  A JavaScript string is modelled as a \<^typ>\<open>string\<close>: a list of 8-bit characters read as
  the code units U+0000 to U+00FF. A value that may be \<^verbatim>\<open>undefined\<close> or
  \<^verbatim>\<open>null\<close> is an \<^typ>\<open>'a option\<close> with \<^term>\<open>None\<close> for the absent value.
  A finite JavaScript number is modelled as an exact \<^typ>\<open>real\<close>: the rounding of IEEE
  doubles and the sign of zero are not modelled.
\<close>

definition isWhiteSpace :: "char \<Rightarrow> bool" where
  \<comment> \<open>what \<^verbatim>\<open>trim\<close> strips and \<^verbatim>\<open>\s\<close> matches, among the code units below 256\<close>
  "isWhiteSpace c \<longleftrightarrow> c \<in> set [CHR 0x09, CHR 0x0A, CHR 0x0B, CHR 0x0C, CHR 0x0D, CHR 0x20, CHR 0xA0]"

definition isLineTerminator :: "char \<Rightarrow> bool" where
  \<comment> \<open>the code units below 256 that \<^verbatim>\<open>.\<close> does not match in a regular expression\<close>
  "isLineTerminator c \<longleftrightarrow> c = CHR 0x0A \<or> c = CHR 0x0D"

definition isDigit :: "char \<Rightarrow> bool" where
  "isDigit c \<longleftrightarrow> c \<in> set ''0123456789''"

definition digitVal :: "char \<Rightarrow> int" where
  "digitVal c = of_char c - 48"

definition trim :: "string \<Rightarrow> string" where
  "trim s = rev (dropWhile isWhiteSpace (rev (dropWhile isWhiteSpace s)))"

text \<open>
  \<^verbatim>\<open>/\(.*?\)/\<close> at an opening parenthesis: the lazy \<^verbatim>\<open>.*?\<close> stops at the first
  closing parenthesis, and fails when a line terminator comes before it. The result is
  the text after the match.
\<close>

fun closeParen :: "string \<Rightarrow> string option" where
  "closeParen [] = None"
| "closeParen (c # cs) =
     (if c = CHR '')'' then Some cs
      else if isLineTerminator c then None
      else closeParen cs)"

lemma closeParen_length: "closeParen cs = Some rest \<Longrightarrow> length rest < length cs"
  by (induction cs) (auto split: if_splits)

text \<open>\<^verbatim>\<open>s.replace(/\(.*?\)/g, "")\<close>\<close>

function removeParens :: "string \<Rightarrow> string" where
  "removeParens [] = []"
| "removeParens (c # cs) =
     (if c = CHR ''('' then
        (case closeParen cs of
           Some rest \<Rightarrow> removeParens rest
         | None \<Rightarrow> c # removeParens cs)
      else c # removeParens cs)"
  by pat_completeness auto
termination
  by (relation "measure length") (auto dest: closeParen_length)

text \<open>\<^verbatim>\<open>s.replace(/,/g, "")\<close>\<close>

definition removeCommas :: "string \<Rightarrow> string" where
  "removeCommas s = filter (\<lambda>c. c \<noteq> CHR '','') s"

text \<open>
  \<^verbatim>\<open>s.match(/[0-9]+(?:\.[0-9]+)?/g)\<close>: the matches from left to right, the empty list
  where JavaScript gives \<^verbatim>\<open>null\<close>. A match is a maximal run of digits, extended by a
  point and a further run of digits when a digit follows the point.
\<close>

lemma dropWhile_shorter: "ys = dropWhile P xs \<Longrightarrow> length ys \<le> length xs"
  using length_dropWhile_le [of P xs] by simp

lemma dropWhile_twice_shorter:
  "d # f # r = dropWhile P xs \<Longrightarrow> length (dropWhile Q r) \<le> length xs"
proof -
  assume eq: "d # f # r = dropWhile P xs"
  have "length (dropWhile Q r) \<le> length r"
    by (rule length_dropWhile_le)
  also have "\<dots> \<le> length (d # f # r)"
    by simp
  also have "\<dots> \<le> length xs"
    unfolding eq by (rule length_dropWhile_le)
  finally show ?thesis .
qed

function numMatches :: "string \<Rightarrow> string list" where
  "numMatches [] = []"
| "numMatches (c # cs) =
     (if isDigit c then
        (let ip = c # takeWhile isDigit cs; rest = dropWhile isDigit cs in
         (case rest of
            d # f # rest' \<Rightarrow>
              if d = CHR ''.'' \<and> isDigit f
              then (ip @ d # f # takeWhile isDigit rest') # numMatches (dropWhile isDigit rest')
              else ip # numMatches rest
          | _ \<Rightarrow> ip # numMatches rest))
      else numMatches cs)"
  by pat_completeness auto
termination
proof (relation "measure length")
  show "wf (measure length)" by simp
qed (auto simp: less_Suc_eq_le length_dropWhile_le dest: dropWhile_twice_shorter)

definition decVal :: "string \<Rightarrow> int" where
  "decVal ds = foldl (\<lambda>a c. 10 * a + digitVal c) 0 ds"

text \<open>
  \<^verbatim>\<open>parseFloat\<close> on a string that starts with a digit, as every match of the expression
  above does: the digits, then a point and the digits after it if there are any; what
  follows is ignored.
\<close>

definition parseFloat :: "string \<Rightarrow> real" where
  "parseFloat m =
     (let ip = takeWhile isDigit m; rest = dropWhile isDigit m in
      case rest of
        [] \<Rightarrow> of_int (decVal ip)
      | d # t \<Rightarrow>
          if d = CHR ''.''
          then (let fp = takeWhile isDigit t in of_int (decVal ip) + of_int (decVal fp) / 10 ^ length fp)
          else of_int (decVal ip))"

section \<open>The numeric field parser\<close>

definition cleaned :: "string \<Rightarrow> string" where
  \<comment> \<open>the value of \<^verbatim>\<open>s\<close> after the parenthetical notes and the commas are removed\<close>
  "cleaned raw = trim (removeCommas (removeParens (trim raw)))"

definition parseSpeakers :: "string option \<Rightarrow> real option" where
  "parseSpeakers raw =
     (case raw of
        None \<Rightarrow> None
      | Some r \<Rightarrow>
          if trim r = [] then None
          else
            let s = cleaned r; nums = numMatches s in
            if nums = [] then None
            else
              let parsed = map parseFloat nums in
              if CHR ''-'' \<in> set s \<and> 2 \<le> length parsed
              then Some ((parsed ! 0 + parsed ! (length parsed - 1)) / 2)
              else if CHR ''<'' \<in> set s \<and> 1 \<le> length parsed
              then Some (parsed ! 0)
              else Some (parsed ! 0))"

section \<open>The state name canonicalizer\<close>

text \<open>
  \<^verbatim>\<open>toUpperCase\<close> and \<^verbatim>\<open>toLowerCase\<close> are modelled on the ASCII letters; every other
  code unit is left as it is.
\<close>

definition lowerLetters :: string where
  "lowerLetters = ''abcdefghijklmnopqrstuvwxyz''"

definition upperLetters :: string where
  "upperLetters = ''ABCDEFGHIJKLMNOPQRSTUVWXYZ''"

definition isLower :: "char \<Rightarrow> bool" where
  "isLower c \<longleftrightarrow> c \<in> set lowerLetters"

definition isUpper :: "char \<Rightarrow> bool" where
  "isUpper c \<longleftrightarrow> c \<in> set upperLetters"

definition toUpperChar :: "char \<Rightarrow> char" where
  "toUpperChar c = (case map_of (zip lowerLetters upperLetters) c of Some u \<Rightarrow> u | None \<Rightarrow> c)"

definition toLowerChar :: "char \<Rightarrow> char" where
  "toLowerChar c = (case map_of (zip upperLetters lowerLetters) c of Some l \<Rightarrow> l | None \<Rightarrow> c)"

definition toUpperCase :: "string \<Rightarrow> string" where
  "toUpperCase s = map toUpperChar s"

definition toLowerCase :: "string \<Rightarrow> string" where
  "toLowerCase s = map toLowerChar s"

definition isWordChar :: "char \<Rightarrow> bool" where
  \<comment> \<open>the class \<^verbatim>\<open>\w\<close>, on which the word boundary \<^verbatim>\<open>\b\<close> is defined\<close>
  "isWordChar c \<longleftrightarrow> isLower c \<or> isUpper c \<or> isDigit c \<or> c = CHR ''_''"

text \<open>\<^verbatim>\<open>s.replace(/[\.]/g, "")\<close>\<close>

definition removePeriods :: "string \<Rightarrow> string" where
  "removePeriods s = filter (\<lambda>c. c \<noteq> CHR ''.'') s"

text \<open>\<^verbatim>\<open>s.replace(/\s+/g, " ")\<close>: every maximal run of white space becomes one space.\<close>

function collapseSpaces :: "string \<Rightarrow> string" where
  "collapseSpaces [] = []"
| "collapseSpaces (c # cs) =
     (if isWhiteSpace c then CHR '' '' # collapseSpaces (dropWhile isWhiteSpace cs)
      else c # collapseSpaces cs)"
  by pat_completeness auto
termination
  by (relation "measure length") (auto simp: less_Suc_eq_le length_dropWhile_le)

text \<open>
  \<^verbatim>\<open>s.replace(/\bstate\b/i, "")\<close>: the first occurrence of the word, in any case, that
  has no word character before it and none after it is removed. The flag tells whether
  the character before the current position is a word character.
\<close>

fun removeStateFrom :: "bool \<Rightarrow> string \<Rightarrow> string" where
  "removeStateFrom prevWord [] = []"
| "removeStateFrom prevWord (c # cs) =
     (if \<not> prevWord \<and> toLowerCase (take 5 (c # cs)) = ''state''
         \<and> (case drop 5 (c # cs) of [] \<Rightarrow> True | d # _ \<Rightarrow> \<not> isWordChar d)
      then drop 5 (c # cs)
      else c # removeStateFrom (isWordChar c) cs)"

definition removeStateWord :: "string \<Rightarrow> string" where
  "removeStateWord s = removeStateFrom False s"

text \<open>
  \<^verbatim>\<open>s.split(/\s+/)\<close>: the pieces between the runs of white space; the empty string gives
  one empty piece, and a run at either end gives an empty piece there.
\<close>

lemma dropWhile_not_shorter:
  "dropWhile (\<lambda>c. \<not> P c) s \<noteq> [] \<Longrightarrow> length (dropWhile P (dropWhile (\<lambda>c. \<not> P c) s)) < length s"
proof -
  assume ne: "dropWhile (\<lambda>c. \<not> P c) s \<noteq> []"
  then obtain d r where dr: "dropWhile (\<lambda>c. \<not> P c) s = d # r"
    by (cases "dropWhile (\<lambda>c. \<not> P c) s") auto
  then have "P d" using hd_dropWhile [OF ne] by simp
  then have "length (dropWhile P (d # r)) \<le> length r"
    by (simp add: length_dropWhile_le)
  also have "\<dots> < length (d # r)" by simp
  also have "\<dots> \<le> length s"
    unfolding dr [symmetric] by (rule length_dropWhile_le)
  finally show ?thesis unfolding dr .
qed

function splitSpaces :: "string \<Rightarrow> string list" where
  "splitSpaces s =
     (let w = takeWhile (\<lambda>c. \<not> isWhiteSpace c) s; rest = dropWhile (\<lambda>c. \<not> isWhiteSpace c) s in
      if rest = [] then [w] else w # splitSpaces (dropWhile isWhiteSpace rest))"
  by pat_completeness auto
termination
  by (relation "measure length") (simp_all add: dropWhile_not_shorter)

declare splitSpaces.simps [simp del]

definition titleWord :: "string \<Rightarrow> string" where
  \<comment> \<open>\<^verbatim>\<open>w.charAt(0).toUpperCase() + w.slice(1).toLowerCase()\<close>\<close>
  "titleWord w = (case w of [] \<Rightarrow> [] | c # cs \<Rightarrow> toUpperChar c # toLowerCase cs)"

fun joinSpace :: "string list \<Rightarrow> string" where
  "joinSpace [] = []"
| "joinSpace [w] = w"
| "joinSpace (w # ws) = w @ CHR '' '' # joinSpace ws"

definition abbrevToName :: "(string \<times> string) list" where
  "abbrevToName =
    [(''AL'', ''Alabama''), (''AK'', ''Alaska''), (''AZ'', ''Arizona''), (''AR'', ''Arkansas''),
     (''CA'', ''California''), (''CO'', ''Colorado''), (''CT'', ''Connecticut''),
     (''DE'', ''Delaware''), (''FL'', ''Florida''), (''GA'', ''Georgia''), (''HI'', ''Hawaii''),
     (''ID'', ''Idaho''), (''IL'', ''Illinois''), (''IN'', ''Indiana''), (''IA'', ''Iowa''),
     (''KS'', ''Kansas''), (''KY'', ''Kentucky''), (''LA'', ''Louisiana''), (''ME'', ''Maine''),
     (''MD'', ''Maryland''), (''MA'', ''Massachusetts''), (''MI'', ''Michigan''),
     (''MN'', ''Minnesota''), (''MS'', ''Mississippi''), (''MO'', ''Missouri''),
     (''MT'', ''Montana''), (''NE'', ''Nebraska''), (''NV'', ''Nevada''),
     (''NH'', ''New Hampshire''), (''NJ'', ''New Jersey''), (''NM'', ''New Mexico''),
     (''NY'', ''New York''), (''NC'', ''North Carolina''), (''ND'', ''North Dakota''),
     (''OH'', ''Ohio''), (''OK'', ''Oklahoma''), (''OR'', ''Oregon''), (''PA'', ''Pennsylvania''),
     (''RI'', ''Rhode Island''), (''SC'', ''South Carolina''), (''SD'', ''South Dakota''),
     (''TN'', ''Tennessee''), (''TX'', ''Texas''), (''UT'', ''Utah''), (''VT'', ''Vermont''),
     (''VA'', ''Virginia''), (''WA'', ''Washington''), (''WV'', ''West Virginia''),
     (''WI'', ''Wisconsin''), (''WY'', ''Wyoming''), (''DC'', ''District of Columbia'')]"

definition canonicalStateName :: "string option \<Rightarrow> string" where
  "canonicalStateName raw =
     (case raw of
        None \<Rightarrow> ''Unknown''
      | Some r \<Rightarrow>
          if trim r = [] then ''Unknown''
          else
            let s = trim (collapseSpaces (removePeriods (trim r)));
                byCode = (if length s = 2 then map_of abbrevToName (toUpperCase s) else None)
            in (case byCode of
                  Some name \<Rightarrow> name
                | None \<Rightarrow>
                    let clean = trim (removeStateWord (removeParens s)) in
                    (case find (\<lambda>name. toLowerCase name = toLowerCase clean) (map snd abbrevToName) of
                       Some name \<Rightarrow> name
                     | None \<Rightarrow> joinSpace (map titleWord (splitSpaces clean)))))"

section \<open>The joined dataset\<close>

text \<open>
  A JavaScript \<^verbatim>\<open>Map\<close> is an association list in insertion order with one entry for
  each key: \<^verbatim>\<open>set\<close> replaces the value of a key that is present where it stands, and
  appends a new key at the end.
\<close>

definition mapGet :: "('k \<times> 'v) list \<Rightarrow> 'k \<Rightarrow> 'v option" where
  "mapGet m k = map_of m k"

definition mapHas :: "('k \<times> 'v) list \<Rightarrow> 'k \<Rightarrow> bool" where
  "mapHas m k \<longleftrightarrow> map_of m k \<noteq> None"

fun mapSet :: "('k \<times> 'v) list \<Rightarrow> 'k \<Rightarrow> 'v \<Rightarrow> ('k \<times> 'v) list" where
  "mapSet [] k v = [(k, v)]"
| "mapSet ((k', v') # m) k v = (if k' = k then (k, v) # m else (k', v') # mapSet m k v)"

text \<open>\<^verbatim>\<open>new Set(xs)\<close>: the distinct elements in the order of their first occurrence.\<close>

definition newSet :: "'a list \<Rightarrow> 'a list" where
  "newSet xs = foldl (\<lambda>acc x. if x \<in> set acc then acc else acc @ [x]) [] xs"

text \<open>
  A row of the language table. \<open>Speakers\<close> holds the parsed count, which replaces the text
  of the column when the table is loaded; the two columns on English proficiency keep
  their text.
\<close>

record languageRow =
  State :: "string option"
  Language :: "string option"
  Speakers :: "real option"
  LessThanVeryWell :: "string option"
  MarginOfError :: "string option"

abbreviation stateKeyOf :: "languageRow \<Rightarrow> string" where
  "stateKeyOf d \<equiv> canonicalStateName (State d)"

definition groupByState ::
  "(string \<times> languageRow list) list \<Rightarrow> languageRow \<Rightarrow> (string \<times> languageRow list) list" where
  \<comment> \<open>one call of the function given to \<^verbatim>\<open>languageData.forEach\<close>\<close>
  "groupByState m d =
     (let stateKey = canonicalStateName (State d);
          m' = (if mapHas m stateKey then m else mapSet m stateKey [])
      in (case mapGet m' stateKey of
            Some arr \<Rightarrow> mapSet m' stateKey (arr @ [d])
          | None \<Rightarrow> m'))"

definition languageByState :: "languageRow list \<Rightarrow> (string \<times> languageRow list) list" where
  "languageByState languageData = foldl groupByState [] languageData"

section \<open>The dot chart: number of states per language\<close>

definition orZero :: "nat option \<Rightarrow> nat" where
  \<comment> \<open>\<^verbatim>\<open>x || 0\<close> on a count\<close>
  "orZero x = (case x of Some n \<Rightarrow> n | None \<Rightarrow> 0)"

definition countLanguage :: "(string option \<times> nat) list \<Rightarrow> string option \<Rightarrow> (string option \<times> nat) list" where
  \<comment> \<open>\<^verbatim>\<open>statesCount.set(l, (statesCount.get(l) || 0) + 1)\<close>\<close>
  "countLanguage sc l = mapSet sc l (orZero (mapGet sc l) + 1)"

definition statesCount :: "(string \<times> languageRow list) list \<Rightarrow> (string option \<times> nat) list" where
  "statesCount byState =
     foldl (\<lambda>sc (state, arr). foldl countLanguage sc (newSet (map Language arr))) [] byState"

definition statesPresent :: "languageRow list \<Rightarrow> string option \<Rightarrow> nat" where
  \<comment> \<open>the field \<^verbatim>\<open>states\<close> of a point of the dot chart: \<^verbatim>\<open>statesCount.get(lang) || 0\<close>\<close>
  "statesPresent languageData lang = orZero (mapGet (statesCount (languageByState languageData)) lang)"

text \<open>
  The count as the specification words it: the distinct canonical states in which a row
  of the language has a parsed number of speakers above zero.
\<close>

definition languageCoverage_spec :: "languageRow list \<Rightarrow> string option \<Rightarrow> nat" where
  "languageCoverage_spec languageData lang =
     length (remdups (map (\<lambda>d. canonicalStateName (State d))
       (filter (\<lambda>d. Language d = lang \<and> (case Speakers d of Some v \<Rightarrow> 0 < v | None \<Rightarrow> False))
          languageData)))"

section \<open>Population by state\<close>

text \<open>
  A number that may be infinite or not a number. The populations are read with the unary
  plus, which gives such values on texts like \<open>Infinity\<close> or \<open>abc\<close>.
\<close>

datatype jsnum = Fin real | PosInf | NegInf | NaN

fun jsNeg :: "jsnum \<Rightarrow> jsnum" where
  "jsNeg (Fin x) = Fin (- x)"
| "jsNeg PosInf = NegInf"
| "jsNeg NegInf = PosInf"
| "jsNeg NaN = NaN"

definition scale10 :: "real \<Rightarrow> int \<Rightarrow> real" where
  "scale10 x e = (if 0 \<le> e then x * 10 ^ nat e else x / 10 ^ nat (- e))"

text \<open>
  The exponent part of a decimal literal, which may be absent: \<open>e\<close> or \<open>E\<close>, an optional
  sign, and digits. \<^term>\<open>None\<close> when the text is not an exponent part.
\<close>

definition exponentPart :: "string \<Rightarrow> int option" where
  "exponentPart r =
     (case r of
        [] \<Rightarrow> Some 0
      | c # t \<Rightarrow>
          if c = CHR ''e'' \<or> c = CHR ''E'' then
            (let ds = (case t of [] \<Rightarrow> [] | s # u \<Rightarrow> if s = CHR ''+'' \<or> s = CHR ''-'' then u else t);
                 neg = (case t of [] \<Rightarrow> False | s # u \<Rightarrow> s = CHR ''-'')
             in if ds \<noteq> [] \<and> list_all isDigit ds
                then Some (if neg then - decVal ds else decVal ds)
                else None)
          else None)"

text \<open>
  An unsigned decimal literal: \<open>Infinity\<close>, or digits with an optional point, fraction
  and exponent, with a digit before or after the point.
\<close>

definition unsignedDecimal :: "string \<Rightarrow> jsnum" where
  "unsignedDecimal s =
     (if s = ''Infinity'' then PosInf
      else
        let ip = takeWhile isDigit s;
            r1 = dropWhile isDigit s;
            fp = (case r1 of [] \<Rightarrow> [] | c # t \<Rightarrow> if c = CHR ''.'' then takeWhile isDigit t else []);
            r2 = (case r1 of [] \<Rightarrow> [] | c # t \<Rightarrow> if c = CHR ''.'' then dropWhile isDigit t else r1)
        in if ip = [] \<and> fp = [] then NaN
           else (case exponentPart r2 of
                   None \<Rightarrow> NaN
                 | Some e \<Rightarrow>
                     Fin (scale10 (of_int (decVal ip) + of_int (decVal fp) / 10 ^ length fp) e)))"

definition radixVal :: "string \<Rightarrow> string \<Rightarrow> int option" where
  \<comment> \<open>the value of the digits \<open>ds\<close> over the given alphabet of digits, letters in either case\<close>
  "radixVal alphabet ds =
     (if ds \<noteq> [] \<and> list_all (\<lambda>c. toLowerChar c \<in> set alphabet) ds
      then Some (foldl (\<lambda>a c. int (length alphabet) * a
                    + int (length (takeWhile (\<lambda>x. x \<noteq> toLowerChar c) alphabet))) 0 ds)
      else None)"

text \<open>A binary, octal or hexadecimal literal; \<^term>\<open>None\<close> when the text has no such prefix.\<close>

definition nonDecimal :: "string \<Rightarrow> jsnum option" where
  "nonDecimal s =
     (case s of
        z # x # ds \<Rightarrow>
          if z = CHR ''0'' then
            (case map_of [(CHR ''b'', ''01''), (CHR ''o'', ''01234567''),
                          (CHR ''x'', ''0123456789abcdef'')] (toLowerChar x) of
               Some alphabet \<Rightarrow>
                 Some (case radixVal alphabet ds of Some n \<Rightarrow> Fin (of_int n) | None \<Rightarrow> NaN)
             | None \<Rightarrow> None)
          else None
      | _ \<Rightarrow> None)"

text \<open>The unary plus on a string: the conversion of a string to a number.\<close>

definition toNumber :: "string \<Rightarrow> jsnum" where
  "toNumber s =
     (let t = trim s in
      if t = [] then Fin 0
      else
        (case nonDecimal t of
           Some n \<Rightarrow> n
         | None \<Rightarrow>
             (case t of
                [] \<Rightarrow> Fin 0
              | c # u \<Rightarrow>
                  if c = CHR ''+'' then unsignedDecimal u
                  else if c = CHR ''-'' then jsNeg (unsignedDecimal u)
                  else unsignedDecimal t)))"

text \<open>
  A row of the population table gives the text of a column, or \<^term>\<open>None\<close> for a column
  that the table does not have.
\<close>

type_synonym popRow = "string \<Rightarrow> string option"

definition truthy :: "string option \<Rightarrow> bool" where
  "truthy x = (case x of Some s \<Rightarrow> s \<noteq> [] | None \<Rightarrow> False)"

definition jsOr :: "string option \<Rightarrow> string option \<Rightarrow> string option" where
  \<comment> \<open>\<^verbatim>\<open>a || b\<close>\<close>
  "jsOr a b = (if truthy a then a else b)"

definition rawNameOf :: "popRow \<Rightarrow> string option" where
  "rawNameOf r =
     jsOr (jsOr (jsOr (jsOr (jsOr (r ''Area'') (r ''State'')) (r ''NAME'')) (r ''Name''))
       (r ''Geography'')) (r ''GeographyName'')"

definition rawPopOf :: "popRow \<Rightarrow> string option" where
  "rawPopOf r =
     jsOr (jsOr (jsOr (jsOr (jsOr (r ''2010'') (r ''2010 Population'')) (r ''Pop2010''))
       (r ''POP_2010'')) (r ''2010 Population Estimate'')) (r ''2010_est'')"

definition popValue :: "popRow \<Rightarrow> jsnum option" where
  \<comment> \<open>the value of \<^verbatim>\<open>p\<close>: null without a population text or with an empty one\<close>
  "popValue r =
     (case rawPopOf r of
        None \<Rightarrow> None
      | Some t \<Rightarrow> (let s = trim (removeCommas t) in if s = [] then None else Some (toNumber s)))"

definition populationRow :: "(string \<times> jsnum) list \<Rightarrow> popRow \<Rightarrow> (string \<times> jsnum) list" where
  \<comment> \<open>one call of the function given to \<^verbatim>\<open>popData.forEach\<close>\<close>
  "populationRow m r =
     (let rawName = rawNameOf r in
      if \<not> truthy rawName then m
      else
        let name = canonicalStateName rawName; p = popValue r in
        (case p of
           Some n \<Rightarrow> if n \<noteq> NaN then mapSet m name n else m
         | None \<Rightarrow> m))"

definition populationByState :: "popRow list \<Rightarrow> (string \<times> jsnum) list" where
  "populationByState popData = foldl populationRow [] popData"

definition storesFor :: "string \<Rightarrow> popRow \<Rightarrow> bool" where
  \<comment> \<open>the row reaches \<^verbatim>\<open>populationByState.set\<close>, and does so with the key \<open>name\<close>\<close>
  "storesFor name r \<longleftrightarrow>
     truthy (rawNameOf r) \<and> canonicalStateName (rawNameOf r) = name
     \<and> popValue r \<noteq> None \<and> popValue r \<noteq> Some NaN"

section \<open>Proportion of people who speak English less than very well\<close>

definition numOrZero :: "real option \<Rightarrow> real" where
  \<comment> \<open>\<^verbatim>\<open>x || 0\<close> on a number\<close>
  "numOrZero x = (case x of Some v \<Rightarrow> v | None \<Rightarrow> 0)"

definition lessThanVeryWellRow :: "(string \<times> real) list \<Rightarrow> languageRow \<Rightarrow> (string \<times> real) list" where
  "lessThanVeryWellRow m d =
     (let stateKey = canonicalStateName (State d);
          count = parseSpeakers (jsOr (LessThanVeryWell d) (LessThanVeryWell d))
      in (case count of
            Some c \<Rightarrow> mapSet m stateKey (numOrZero (mapGet m stateKey) + c)
          | None \<Rightarrow> m))"

definition englishLessThanVeryWellByState :: "languageRow list \<Rightarrow> (string \<times> real) list" where
  "englishLessThanVeryWellByState languageData = foldl lessThanVeryWellRow [] languageData"

definition countsFor :: "string \<Rightarrow> languageRow list \<Rightarrow> real list" where
  \<comment> \<open>the counts that parse to a number, of the rows of one canonical state, in order\<close>
  "countsFor state languageData =
     List.map_filter (\<lambda>d. if stateKeyOf d = state then parseSpeakers (LessThanVeryWell d) else None)
       languageData"

text \<open>Division and multiplication of numbers that may be infinite; zero has no sign here.\<close>

fun jsDiv :: "jsnum \<Rightarrow> jsnum \<Rightarrow> jsnum" where
  "jsDiv (Fin a) (Fin b) =
     (if b \<noteq> 0 then Fin (a / b) else if a = 0 then NaN else if 0 < a then PosInf else NegInf)"
| "jsDiv (Fin a) PosInf = Fin 0"
| "jsDiv (Fin a) NegInf = Fin 0"
| "jsDiv PosInf (Fin b) = (if 0 \<le> b then PosInf else NegInf)"
| "jsDiv NegInf (Fin b) = (if 0 \<le> b then NegInf else PosInf)"
| "jsDiv _ _ = NaN"

fun jsMul :: "jsnum \<Rightarrow> jsnum \<Rightarrow> jsnum" where
  "jsMul (Fin a) (Fin b) = Fin (a * b)"
| "jsMul PosInf (Fin b) = (if b = 0 then NaN else if 0 < b then PosInf else NegInf)"
| "jsMul NegInf (Fin b) = (if b = 0 then NaN else if 0 < b then NegInf else PosInf)"
| "jsMul (Fin a) PosInf = (if a = 0 then NaN else if 0 < a then PosInf else NegInf)"
| "jsMul (Fin a) NegInf = (if a = 0 then NaN else if 0 < a then NegInf else PosInf)"
| "jsMul PosInf PosInf = PosInf"
| "jsMul PosInf NegInf = NegInf"
| "jsMul NegInf PosInf = NegInf"
| "jsMul NegInf NegInf = PosInf"
| "jsMul _ _ = NaN"

definition popOrOne :: "jsnum option \<Rightarrow> jsnum" where
  \<comment> \<open>\<^verbatim>\<open>populationByState.get(state) || 1\<close>\<close>
  "popOrOne x =
     (case x of
        Some n \<Rightarrow> if n = NaN \<or> n = Fin 0 then Fin 1 else n
      | None \<Rightarrow> Fin 1)"

definition proportionRow ::
  "(string \<times> jsnum) list \<Rightarrow> (string \<times> jsnum) list \<Rightarrow> string \<times> real \<Rightarrow> (string \<times> jsnum) list" where
  "proportionRow popByState m entry =
     (case entry of (state, count) \<Rightarrow>
        let pop = popOrOne (mapGet popByState state);
            proportion = jsMul (jsDiv (Fin count) pop) (Fin 100)
        in mapSet m state proportion)"

definition englishProficiencyProportions ::
  "(string \<times> jsnum) list \<Rightarrow> (string \<times> real) list \<Rightarrow> (string \<times> jsnum) list" where
  "englishProficiencyProportions popByState byState = foldl (proportionRow popByState) [] byState"

section \<open>Quartiles of the box plot\<close>

text \<open>\<^verbatim>\<open>xs[i]\<close>: the element, or \<^verbatim>\<open>undefined\<close> outside the array.\<close>

definition elemAt :: "'a list \<Rightarrow> nat \<Rightarrow> 'a option" where
  "elemAt xs i = (if i < length xs then Some (xs ! i) else None)"

text \<open>
  The result of \<open>calculateQuartiles\<close>. A field is \<^term>\<open>None\<close> where JavaScript has
  \<^verbatim>\<open>undefined\<close>, and for \<open>iqr\<close> where the difference of two such values is not a number.
\<close>

record quartiles =
  min_val :: "real option"
  q1 :: "real option"
  median :: "real option"
  q3 :: "real option"
  max_val :: "real option"
  iqr :: "real option"

definition calculateQuartiles :: "real list \<Rightarrow> quartiles" where
  "calculateQuartiles data =
     (let sorted = sort data;
          len = length sorted;
          q1Index = nat \<lfloor>real len * 0.25\<rfloor>;
          medianIndex = nat \<lfloor>real len * 0.5\<rfloor>;
          q3Index = nat \<lfloor>real len * 0.75\<rfloor>;
          q1 = elemAt sorted q1Index;
          median = elemAt sorted medianIndex;
          q3 = elemAt sorted q3Index;
          min = elemAt sorted 0;
          max = (if len = 0 then None else elemAt sorted (len - 1));
          iqr = (case (q3, q1) of (Some a, Some b) \<Rightarrow> Some (a - b) | _ \<Rightarrow> None)
      in \<lparr>min_val = min, q1 = q1, median = median, q3 = q3, max_val = max, iqr = iqr\<rparr>)"

section \<open>Root of the sum of squares of the margins of error\<close>

definition rms :: "real list \<Rightarrow> real" where
  \<comment> \<open>\<^verbatim>\<open>Math.sqrt(errors.reduce((s, e) => s + e * e, 0))\<close>\<close>
  "rms errors = sqrt (foldl (\<lambda>s e. s + e * e) 0 errors)"

definition englishErrorRMSByState :: "(string \<times> real list) list \<Rightarrow> (string \<times> real) list" where
  "englishErrorRMSByState englishErrorByState =
     foldl (\<lambda>m (state, errors). mapSet m state (rms errors)) [] englishErrorByState"

section \<open>Properties of the numeric field parser\<close>

lemma set_trim: "set (trim s) \<subseteq> set s"
  by (auto simp: trim_def dest!: set_dropWhileD)

lemma trim_Nil: "trim [] = []"
  by (simp add: trim_def)

lemma set_closeParen: "closeParen cs = Some rest \<Longrightarrow> set rest \<subseteq> set cs"
  by (induction cs) (auto split: if_splits)

lemma set_removeParens: "set (removeParens s) \<subseteq> set s"
proof (induction s rule: removeParens.induct)
  case 1
  show ?case by simp
next
  case (2 c cs)
  show ?case
  proof (cases "c = CHR ''(''")
    case False
    with 2 show ?thesis by auto
  next
    case True
    show ?thesis
    proof (cases "closeParen cs")
      case None
      with True 2 show ?thesis by auto
    next
      case (Some rest)
      with True 2 have "set (removeParens rest) \<subseteq> set rest" by simp
      also have "\<dots> \<subseteq> set cs" using Some by (rule set_closeParen)
      finally show ?thesis using True Some by auto
    qed
  qed
qed

lemma set_cleaned: "set (cleaned r) \<subseteq> set r"
  using set_trim set_removeParens by (fastforce simp: cleaned_def removeCommas_def)

lemma cleaned_empty: "trim r = [] \<Longrightarrow> cleaned r = []"
  by (simp add: cleaned_def removeCommas_def trim_Nil)

lemma numMatches_no_digit: "\<forall>c\<in>set s. \<not> isDigit c \<Longrightarrow> numMatches s = []"
  by (induction s) auto

lemma digitVal_nonneg: "isDigit c \<Longrightarrow> 0 \<le> digitVal c"
  by (auto simp: isDigit_def digitVal_def)

lemma foldl_digits_nonneg:
  "\<forall>c\<in>set ds. isDigit c \<Longrightarrow> 0 \<le> a \<Longrightarrow> 0 \<le> foldl (\<lambda>a c. 10 * a + digitVal c) a ds"
  by (induction ds arbitrary: a) (simp_all add: digitVal_nonneg)

lemma decVal_nonneg: "0 \<le> decVal (takeWhile isDigit s)"
  unfolding decVal_def by (rule foldl_digits_nonneg) (auto dest: set_takeWhileD)

lemma parseFloat_nonneg: "0 \<le> parseFloat m"
  by (simp add: parseFloat_def Let_def decVal_nonneg split: list.split)

lemma parsed_nonneg: "i < length ms \<Longrightarrow> 0 \<le> map parseFloat ms ! i"
  by (simp add: parseFloat_nonneg)

lemma parseSpeakers_nonneg: "parseSpeakers raw = Some v \<Longrightarrow> 0 \<le> v"
proof (cases raw)
  case None
  assume "parseSpeakers raw = Some v"
  with None show ?thesis by (simp add: parseSpeakers_def)
next
  case (Some r)
  assume a: "parseSpeakers raw = Some v"
  define ms where "ms = numMatches (cleaned r)"
  from a Some have ne: "ms \<noteq> []"
    by (auto simp: parseSpeakers_def Let_def ms_def split: if_splits)
  then have first: "0 \<le> map parseFloat ms ! 0"
    by (intro parsed_nonneg) simp
  from ne have final: "0 \<le> map parseFloat ms ! (length ms - 1)"
    by (intro parsed_nonneg) simp
  from a Some ne consider "v = (map parseFloat ms ! 0 + map parseFloat ms ! (length ms - 1)) / 2"
    | "v = map parseFloat ms ! 0"
    by (auto simp: parseSpeakers_def Let_def ms_def split: if_splits)
  then show ?thesis
    using first final by cases simp_all
qed

lemma parseSpeakers_range:
  assumes "CHR ''-'' \<in> set (cleaned r)" and "2 \<le> length (numMatches (cleaned r))"
  shows "parseSpeakers (Some r) =
    Some ((parseFloat (hd (numMatches (cleaned r))) + parseFloat (last (numMatches (cleaned r)))) / 2)"
proof -
  define ms where "ms = numMatches (cleaned r)"
  from assms(2) have ne: "ms \<noteq> []" by (auto simp: ms_def)
  from assms(1) have "cleaned r \<noteq> []" by auto
  then have t: "trim r \<noteq> []" using cleaned_empty by blast
  from ne have "map parseFloat ms ! 0 = parseFloat (hd ms)"
    by (simp add: hd_conv_nth)
  moreover from ne have "map parseFloat ms ! (length ms - 1) = parseFloat (last ms)"
    by (simp add: last_conv_nth)
  ultimately show ?thesis
    using assms t ne by (simp add: parseSpeakers_def Let_def ms_def)
qed

text \<open>
  C4. Whenever the cleaned text (parenthetical notes and commas removed) contains a hyphen
  and at least two numbers are found in it, \<open>parseSpeakers\<close> returns the arithmetic mean of
  the first and the last number found. The three examples of the specification hold:
  \<open>1000-2000\<close> gives 1500, \<open><500\<close> gives 500 and \<open>1,234\<close> gives 1234.
\<close>

theorem parseSpeakers_range_mean:
  "(CHR ''-'' \<in> set (cleaned r) \<and> 2 \<le> length (numMatches (cleaned r)) \<longrightarrow>
      parseSpeakers (Some r) =
        Some ((parseFloat (hd (numMatches (cleaned r)))
               + parseFloat (last (numMatches (cleaned r)))) / 2))
   \<and> parseSpeakers (Some ''1000-2000'') = Some 1500
   \<and> parseSpeakers (Some ''<500'') = Some 500
   \<and> parseSpeakers (Some ''1,234'') = Some 1234"
proof -
  have "parseSpeakers (Some ''1000-2000'') = Some 1500" by code_simp
  moreover have "parseSpeakers (Some ''<500'') = Some 500" by code_simp
  moreover have "parseSpeakers (Some ''1,234'') = Some 1234" by code_simp
  ultimately show ?thesis using parseSpeakers_range [of r] by blast
qed

theorem parseSpeakers_range_mean_witness:
  "CHR ''-'' \<in> set (cleaned ''10 - 20 (est.) - 40'')
   \<and> 2 \<le> length (numMatches (cleaned ''10 - 20 (est.) - 40''))
   \<and> parseSpeakers (Some ''10 - 20 (est.) - 40'') = Some 25"
proof -
  have c: "cleaned ''10 - 20 (est.) - 40'' = ''10 - 20  - 40''" by code_simp
  have m: "numMatches ''10 - 20  - 40'' = [''10'', ''20'', ''40'']" by code_simp
  have v: "(parseFloat ''10'' + parseFloat ''40'') / 2 = 25" by code_simp
  show ?thesis
    using parseSpeakers_range_mean [of "''10 - 20 (est.) - 40''"] v
    unfolding c m by simp
qed

text \<open>
  C5. \<open>parseSpeakers\<close> signals absence by the null result and has no failing path: the
  result is null for null or undefined input, for input that is empty once trimmed, and
  for input without any digit, such as \<open>N/A\<close>.
\<close>

theorem parseSpeakers_null:
  "parseSpeakers None = None
   \<and> (trim r = [] \<longrightarrow> parseSpeakers (Some r) = None)
   \<and> ((\<forall>c\<in>set t. \<not> isDigit c) \<longrightarrow> parseSpeakers (Some t) = None)
   \<and> parseSpeakers (Some ''N/A'') = None"
proof -
  have "parseSpeakers (Some t) = None" if nd: "\<forall>c\<in>set t. \<not> isDigit c"
  proof -
    from nd set_cleaned [of t] have "\<forall>c\<in>set (cleaned t). \<not> isDigit c" by blast
    then have "numMatches (cleaned t) = []" by (rule numMatches_no_digit)
    then show ?thesis by (simp add: parseSpeakers_def)
  qed
  moreover have "parseSpeakers (Some ''N/A'') = None" by code_simp
  ultimately show ?thesis by (simp add: parseSpeakers_def)
qed

theorem parseSpeakers_null_witness:
  "trim [CHR 0x20, CHR 0x09] = [] \<and> parseSpeakers (Some [CHR 0x20, CHR 0x09]) = None
   \<and> filter isDigit ''n/a (none)'' = [] \<and> parseSpeakers (Some ''n/a (none)'') = None"
proof -
  have a: "trim [CHR 0x20, CHR 0x09] = []" by code_simp
  have b: "\<forall>c\<in>set ''n/a (none)''. \<not> isDigit c" by (simp add: isDigit_def)
  show ?thesis
    using parseSpeakers_null [of "[CHR 0x20, CHR 0x09]" "''n/a (none)''"] a b
    by (simp add: isDigit_def)
qed

text \<open>
  C10. Whatever the input, a number returned by \<open>parseSpeakers\<close> is not negative: the
  numbers are read from runs of digits, so a minus sign in front is ignored, and
  \<open>-500\<close> is parsed as 500.
\<close>

theorem parseSpeakers_not_negative:
  "(parseSpeakers raw = Some v \<longrightarrow> 0 \<le> v) \<and> parseSpeakers (Some ''-500'') = Some 500"
proof -
  have "parseSpeakers (Some ''-500'') = Some 500" by code_simp
  then show ?thesis using parseSpeakers_nonneg [of raw v] by blast
qed

theorem parseSpeakers_not_negative_witness:
  "parseSpeakers (Some ''-12.5'') = Some (25 / 2) \<and> (0::real) \<le> 25 / 2"
proof -
  have e: "parseSpeakers (Some ''-12.5'') = Some (25 / 2)" by code_simp
  show ?thesis
    using parseSpeakers_not_negative [of "Some ''-12.5''" "25 / 2"] e by simp
qed

section \<open>Properties of the maps\<close>

lemma map_of_mapSet: "map_of (mapSet m k v) = (map_of m)(k \<mapsto> v)"
  by (induction m) (auto simp: fun_eq_iff)

lemma keys_mapSet: "fst ` set (mapSet m k v) = insert k (fst ` set m)"
proof -
  have "fst ` set (mapSet m k v) = dom (map_of (mapSet m k v))"
    by (simp add: dom_map_of_conv_image_fst)
  also have "\<dots> = insert k (dom (map_of m))"
    by (simp add: map_of_mapSet)
  finally show ?thesis by (simp add: dom_map_of_conv_image_fst)
qed

lemma distinct_mapSet: "distinct (map fst m) \<Longrightarrow> distinct (map fst (mapSet m k v))"
  by (induction m) (auto simp: keys_mapSet)

lemma newSet_aux:
  "set (foldl (\<lambda>acc x. if x \<in> set acc then acc else acc @ [x]) a xs) = set a \<union> set xs
   \<and> (distinct a \<longrightarrow> distinct (foldl (\<lambda>acc x. if x \<in> set acc then acc else acc @ [x]) a xs))"
  by (induction xs arbitrary: a) auto

lemma set_newSet: "set (newSet xs) = set xs"
  using newSet_aux [of "[]" xs] by (simp add: newSet_def)

lemma distinct_newSet: "distinct (newSet xs)"
  using newSet_aux [of "[]" xs] by (simp add: newSet_def)

section \<open>Properties of the grouping by state and of the dot chart\<close>

lemma groupByState_map_of:
  "map_of (groupByState m d) =
     (map_of m)(stateKeyOf d \<mapsto> (case map_of m (stateKeyOf d) of Some arr \<Rightarrow> arr | None \<Rightarrow> []) @ [d])"
  by (auto simp: groupByState_def Let_def mapHas_def mapGet_def map_of_mapSet split: option.splits)

lemma groupByState_distinct: "distinct (map fst m) \<Longrightarrow> distinct (map fst (groupByState m d))"
  by (auto simp: groupByState_def Let_def mapHas_def mapGet_def distinct_mapSet split: option.splits)

lemma languageByState_snoc: "languageByState (ds @ [d]) = groupByState (languageByState ds) d"
  by (simp add: languageByState_def)

lemma languageByState_distinct: "distinct (map fst (languageByState ds))"
proof (induction ds rule: rev_induct)
  case Nil
  show ?case by (simp add: languageByState_def)
next
  case (snoc d ds)
  then show ?case by (simp add: languageByState_snoc groupByState_distinct)
qed

lemma languageByState_map_of:
  "map_of (languageByState ds) k =
     (if k \<in> stateKeyOf ` set ds then Some (filter (\<lambda>d. stateKeyOf d = k) ds) else None)"
proof (induction ds arbitrary: k rule: rev_induct)
  case Nil
  show ?case by (simp add: languageByState_def)
next
  case (snoc d ds)
  have none: "[] = filter (\<lambda>e. stateKeyOf e = stateKeyOf d) ds" if "stateKeyOf d \<notin> stateKeyOf ` set ds"
  proof -
    from that have "filter (\<lambda>e. stateKeyOf e = stateKeyOf d) ds = []"
      unfolding filter_empty_conv by (metis imageI)
    then show ?thesis by simp
  qed
  show ?case
    by (auto simp: languageByState_snoc groupByState_map_of snoc none)
qed

lemma countLanguage_fold:
  "distinct ls \<Longrightarrow>
     orZero (map_of (foldl countLanguage sc ls) l) = orZero (map_of sc l) + (if l \<in> set ls then 1 else 0)"
  by (induction ls arbitrary: sc) (auto simp: countLanguage_def map_of_mapSet mapGet_def orZero_def)

lemma statesCount_fold:
  "orZero (map_of (foldl (\<lambda>sc (state, arr). foldl countLanguage sc (newSet (map Language arr))) sc byState) l) =
     orZero (map_of sc l) + length (filter (\<lambda>(state, arr). l \<in> Language ` set arr) byState)"
  by (induction byState arbitrary: sc) (auto simp: countLanguage_fold distinct_newSet set_newSet)

lemma statesPresent_length:
  "statesPresent ds l = length (filter (\<lambda>(state, arr). l \<in> Language ` set arr) (languageByState ds))"
  using statesCount_fold [of "[]" "languageByState ds" l]
  by (simp add: statesPresent_def statesCount_def mapGet_def orZero_def)

lemma languageByState_entry:
  "(k, arr) \<in> set (languageByState ds) \<longleftrightarrow>
      k \<in> stateKeyOf ` set ds \<and> arr = filter (\<lambda>d. stateKeyOf d = k) ds"
proof -
  have "(k, arr) \<in> set (languageByState ds) \<longleftrightarrow> map_of (languageByState ds) k = Some arr"
    using languageByState_distinct [of ds] by simp
  also have "\<dots> \<longleftrightarrow> k \<in> stateKeyOf ` set ds \<and> arr = filter (\<lambda>d. stateKeyOf d = k) ds"
    unfolding languageByState_map_of by (cases "k \<in> stateKeyOf ` set ds") auto
  finally show ?thesis .
qed

lemma states_with_language:
  "fst ` set (filter (\<lambda>(state, arr). l \<in> Language ` set arr) (languageByState ds)) =
     stateKeyOf ` {d \<in> set ds. Language d = l}"
proof (intro equalityI subsetI)
  fix k
  assume "k \<in> fst ` set (filter (\<lambda>(state, arr). l \<in> Language ` set arr) (languageByState ds))"
  then obtain arr where in_map: "(k, arr) \<in> set (languageByState ds)" and l: "l \<in> Language ` set arr"
    by auto
  from in_map have arr: "arr = filter (\<lambda>d. stateKeyOf d = k) ds"
    by (simp add: languageByState_entry)
  from l obtain d where "d \<in> set arr" "Language d = l" by auto
  with arr have "d \<in> set ds" "stateKeyOf d = k" "Language d = l" by simp_all
  then show "k \<in> stateKeyOf ` {d \<in> set ds. Language d = l}" by blast
next
  fix k
  assume "k \<in> stateKeyOf ` {d \<in> set ds. Language d = l}"
  then obtain d where d: "d \<in> set ds" "Language d = l" "stateKeyOf d = k" by blast
  define arr where "arr = filter (\<lambda>d. stateKeyOf d = k) ds"
  from d have "(k, arr) \<in> set (languageByState ds)"
    unfolding languageByState_entry arr_def by blast
  moreover from d have "l \<in> Language ` set arr"
    unfolding arr_def by force
  ultimately have "(k, arr) \<in> set (filter (\<lambda>(state, arr). l \<in> Language ` set arr) (languageByState ds))"
    by simp
  then show "k \<in> fst ` set (filter (\<lambda>(state, arr). l \<in> Language ` set arr) (languageByState ds))"
    by (rule image_eqI [rotated]) simp
qed

lemma statesPresent_distinct_states:
  "statesPresent ds l = length (remdups (map stateKeyOf (filter (\<lambda>d. Language d = l) ds)))"
proof -
  let ?sel = "filter (\<lambda>(state, arr). l \<in> Language ` set arr) (languageByState ds)"
  have "distinct (map fst ?sel)"
    using languageByState_distinct [of ds] by (rule distinct_map_filter)
  then have "card (set (map fst ?sel)) = length (map fst ?sel)"
    by (rule distinct_card)
  then have "length ?sel = card (fst ` set ?sel)"
    by simp
  also have "\<dots> = card (stateKeyOf ` {d \<in> set ds. Language d = l})"
    unfolding states_with_language ..
  also have "stateKeyOf ` {d \<in> set ds. Language d = l} = set (map stateKeyOf (filter (\<lambda>d. Language d = l) ds))"
    by simp
  also have "card \<dots> = length (remdups (map stateKeyOf (filter (\<lambda>d. Language d = l) ds)))"
    by (rule card_set)
  finally show ?thesis by (simp add: statesPresent_length)
qed

text \<open>
  C2 (as the code has it). For every language, the number of states that the dot chart
  uses is the number of distinct canonical states that have at least one row for the
  language, whatever the number of speakers of that row: a state where the language has
  only null or zero speakers is counted too.
\<close>

theorem statesPresent_counts_states:
  "statesPresent languageData language =
     card (stateKeyOf ` {d \<in> set languageData. Language d = language})"
proof -
  have "stateKeyOf ` {d \<in> set languageData. Language d = language} =
      set (map stateKeyOf (filter (\<lambda>d. Language d = language) languageData))"
    by simp
  then show ?thesis
    by (simp only: statesPresent_distinct_states card_set)
qed

text \<open>
  C2 as stated fails: with one Navajo row of 100 speakers in Texas and one Navajo row
  without a number of speakers in California, the dot chart counts two states, where the
  count of the states with speakers above zero is one.
\<close>

theorem statesPresent_counterexample:
  "statesPresent
     [\<lparr>State = Some ''TX'', Language = Some ''Navajo'', Speakers = Some 100,
        LessThanVeryWell = None, MarginOfError = None\<rparr>,
      \<lparr>State = Some ''California'', Language = Some ''Navajo'', Speakers = None,
        LessThanVeryWell = None, MarginOfError = None\<rparr>] (Some ''Navajo'') = 2
   \<and> languageCoverage_spec
     [\<lparr>State = Some ''TX'', Language = Some ''Navajo'', Speakers = Some 100,
        LessThanVeryWell = None, MarginOfError = None\<rparr>,
      \<lparr>State = Some ''California'', Language = Some ''Navajo'', Speakers = None,
        LessThanVeryWell = None, MarginOfError = None\<rparr>] (Some ''Navajo'') = 1"
  by code_simp

section \<open>Properties of the state name canonicalizer\<close>

text \<open>
  C1. The canonical name is meant never to be empty: null input, empty input and input
  of white space only are sent to \<open>Unknown\<close>. The test for the empty string is made
  before the periods and the parenthetical notes are removed and is not made again, so
  an input made of a period, or of a note in parentheses, gives the empty string.
\<close>

theorem canonicalStateName_empty_name:
  "canonicalStateName (Some ''.'') = [] \<and> canonicalStateName (Some ''(total)'') = []
   \<and> canonicalStateName None = ''Unknown'' \<and> canonicalStateName (Some []) = ''Unknown''
   \<and> canonicalStateName (Some [CHR 0x20, CHR 0x09]) = ''Unknown''"
  by code_simp

section \<open>Properties of the quartiles\<close>

lemma quartile_index_div:
  "nat \<lfloor>real n * 0.25\<rfloor> = n div 4 \<and> nat \<lfloor>real n * 0.5\<rfloor> = n div 2
   \<and> nat \<lfloor>real n * 0.75\<rfloor> = 3 * n div 4"
proof -
  have a: "real n * 0.25 = of_nat n / of_nat 4" by simp
  have b: "real n * 0.5 = of_nat n / of_nat 2" by simp
  have c: "real n * 0.75 = of_nat (3 * n) / of_nat 4" by simp
  show ?thesis
    unfolding a b c floor_divide_of_nat_eq by simp
qed

lemma quartile_index_less:
  "0 < n \<Longrightarrow> nat \<lfloor>real n * 0.25\<rfloor> < n \<and> nat \<lfloor>real n * 0.5\<rfloor> < n \<and> nat \<lfloor>real n * 0.75\<rfloor> < n"
  by (simp add: nat_less_iff floor_less_iff)

lemma calculateQuartiles_on_sorted:
  assumes "data \<noteq> []" and "sorted data"
  shows "calculateQuartiles data =
     \<lparr>min_val = Some (hd data),
      q1 = Some (data ! nat \<lfloor>real (length data) * 0.25\<rfloor>),
      median = Some (data ! nat \<lfloor>real (length data) * 0.5\<rfloor>),
      q3 = Some (data ! nat \<lfloor>real (length data) * 0.75\<rfloor>),
      max_val = Some (last data),
      iqr = Some (data ! nat \<lfloor>real (length data) * 0.75\<rfloor> - data ! nat \<lfloor>real (length data) * 0.25\<rfloor>)\<rparr>"
proof -
  from assms(2) have s: "sort data = data" by (rule sorted_sort_id)
  from assms(1) have n: "0 < length data" by simp
  note i = quartile_index_less [OF n]
  from assms(1) have h: "data ! 0 = hd data" by (simp add: hd_conv_nth)
  from assms(1) have l: "data ! (length data - 1) = last data" by (simp add: last_conv_nth)
  show ?thesis
    unfolding calculateQuartiles_def Let_def s elemAt_def
    using i n h l by simp
qed

text \<open>
  C6. On a non-empty list of numbers in ascending order, \<open>calculateQuartiles\<close> returns as
  first quartile, median and third quartile the elements at the indices
  \<open>floor (n * 0.25)\<close>, \<open>floor (n * 0.5)\<close> and \<open>floor (n * 0.75)\<close>, which are \<open>n div 4\<close>,
  \<open>n div 2\<close> and \<open>3 * n div 4\<close>, with no interpolation; the minimum is the first element,
  the maximum the last, and the interquartile range is the third quartile minus the
  first. On the list of 1 to 8 the result is 1, 3, 5, 7 and 8.
\<close>

theorem calculateQuartiles_nearest_rank:
  "(data \<noteq> [] \<and> sorted data \<longrightarrow>
      calculateQuartiles data =
        \<lparr>min_val = Some (hd data),
         q1 = Some (data ! nat \<lfloor>real (length data) * 0.25\<rfloor>),
         median = Some (data ! nat \<lfloor>real (length data) * 0.5\<rfloor>),
         q3 = Some (data ! nat \<lfloor>real (length data) * 0.75\<rfloor>),
         max_val = Some (last data),
         iqr = Some (data ! nat \<lfloor>real (length data) * 0.75\<rfloor>
                     - data ! nat \<lfloor>real (length data) * 0.25\<rfloor>)\<rparr>
      \<and> nat \<lfloor>real (length data) * 0.25\<rfloor> = length data div 4
      \<and> nat \<lfloor>real (length data) * 0.5\<rfloor> = length data div 2
      \<and> nat \<lfloor>real (length data) * 0.75\<rfloor> = 3 * length data div 4)
   \<and> calculateQuartiles [1, 2, 3, 4, 5, 6, 7, 8] =
        \<lparr>min_val = Some 1, q1 = Some 3, median = Some 5, q3 = Some 7, max_val = Some 8,
         iqr = Some 4\<rparr>"
proof -
  have "calculateQuartiles [1, 2, 3, 4, 5, 6, 7, 8] =
        \<lparr>min_val = Some 1, q1 = Some 3, median = Some 5, q3 = Some 7, max_val = Some 8,
         iqr = Some 4\<rparr>"
    by code_simp
  then show ?thesis
    using calculateQuartiles_on_sorted [of data] quartile_index_div [of "length data"]
    by blast
qed

theorem calculateQuartiles_nearest_rank_witness:
  "[10, 20, 30 :: real] \<noteq> [] \<and> sorted [10, 20, 30 :: real]
   \<and> calculateQuartiles [10, 20, 30] =
       \<lparr>min_val = Some 10, q1 = Some 10, median = Some 20, q3 = Some 30, max_val = Some 30,
        iqr = Some 20\<rparr>"
  using calculateQuartiles_nearest_rank [of "[10, 20, 30]"] by simp

section \<open>Properties of the root of the sum of squares\<close>

lemma foldl_sum_products: "foldl (\<lambda>s e. s + e * e) a es = a + (\<Sum>e\<leftarrow>es. e * e)"
  by (induction es arbitrary: a) (simp_all add: add.assoc)

lemma foldl_sum_squares: "foldl (\<lambda>s e. s + e * e) (a::real) es = a + (\<Sum>e\<leftarrow>es. e\<^sup>2)"
  unfolding foldl_sum_products power2_eq_square ..

lemma rms_3_4: "rms [3, 4] = 5"
proof -
  have "rms [3, 4] = sqrt (5\<^sup>2)" by (simp add: rms_def)
  then show ?thesis by simp
qed

text \<open>
  C8. The aggregate of the margins of error is the square root of the sum of their
  squares; it is 0 for no error at all, and 5 for the errors 3 and 4.
\<close>

theorem rms_root_sum_squares:
  "rms errors = sqrt (\<Sum>e\<leftarrow>errors. e\<^sup>2) \<and> rms [] = 0 \<and> rms [3, 4] = 5"
  using rms_3_4 by (simp add: rms_def foldl_sum_squares)

section \<open>Properties of the population by state\<close>

lemma populationRow_map_of:
  "map_of (populationRow m r) name = (if storesFor name r then popValue r else map_of m name)"
  by (auto simp: populationRow_def storesFor_def Let_def map_of_mapSet split: option.splits)

lemma populationByState_snoc:
  "populationByState (rs @ [r]) = populationRow (populationByState rs) r"
  by (simp add: populationByState_def)

lemma case_last: "xs \<noteq> [] \<Longrightarrow> (case xs of [] \<Rightarrow> None | rs \<Rightarrow> f (last rs)) = f (last xs)"
  by (cases xs) simp_all

lemma populationByState_map_of:
  "map_of (populationByState popData) name =
     (case filter (storesFor name) popData of [] \<Rightarrow> None | rs \<Rightarrow> popValue (last rs))"
proof (induction popData rule: rev_induct)
  case Nil
  show ?case by (simp add: populationByState_def)
next
  case (snoc r rs)
  show ?case
  proof (cases "storesFor name r")
    case True
    then show ?thesis
      by (simp add: populationByState_snoc populationRow_map_of case_last)
  next
    case False
    then show ?thesis
      by (simp add: populationByState_snoc populationRow_map_of snoc)
  qed
qed

text \<open>
  C3 (as the code has it). The population stored for a canonical state name is the value
  of the last row that has a name canonicalizing to it and a population text which, with
  the commas removed and trimmed, is not empty and converts to a number; the rows after
  it that store nothing leave it as it is, and a later row that stores replaces it. A
  stored value is never the value not-a-number; no test is made on its sign.
\<close>

theorem populationByState_last_valid_row:
  "mapGet (populationByState popData) name =
     (case filter (storesFor name) popData of [] \<Rightarrow> None | rs \<Rightarrow> popValue (last rs))
   \<and> (mapGet (populationByState popData) name = Some n \<longrightarrow> n \<noteq> NaN)"
proof -
  have a: "mapGet (populationByState popData) name =
     (case filter (storesFor name) popData of [] \<Rightarrow> None | rs \<Rightarrow> popValue (last rs))"
    by (simp add: mapGet_def populationByState_map_of)
  have "n \<noteq> NaN" if n: "mapGet (populationByState popData) name = Some n"
  proof (cases "filter (storesFor name) popData = []")
    case True
    with a n show ?thesis by simp
  next
    case False
    then have "last (filter (storesFor name) popData) \<in> set (filter (storesFor name) popData)"
      by (rule last_in_set)
    then have "storesFor name (last (filter (storesFor name) popData))" by simp
    moreover from a n False have "popValue (last (filter (storesFor name) popData)) = Some n"
      by (simp add: case_last)
    ultimately show ?thesis by (auto simp: storesFor_def)
  qed
  with a show ?thesis by blast
qed

theorem populationByState_last_valid_row_witness:
  "mapGet (populationByState
      [[''Area'' \<mapsto> ''Texas'', ''2010'' \<mapsto> ''25,145,561''],
       [''State'' \<mapsto> ''TX'', ''2010'' \<mapsto> ''n/a''],
       [''Area'' \<mapsto> ''tx'', ''2010'' \<mapsto> '''', ''Pop2010'' \<mapsto> ''7'']]) ''Texas'' = Some (Fin 7)
   \<and> Fin 7 \<noteq> NaN"
proof -
  have e: "mapGet (populationByState
      [[''Area'' \<mapsto> ''Texas'', ''2010'' \<mapsto> ''25,145,561''],
       [''State'' \<mapsto> ''TX'', ''2010'' \<mapsto> ''n/a''],
       [''Area'' \<mapsto> ''tx'', ''2010'' \<mapsto> '''', ''Pop2010'' \<mapsto> ''7'']]) ''Texas'' = Some (Fin 7)"
    by code_simp
  show ?thesis
    using populationByState_last_valid_row [of
      "[[''Area'' \<mapsto> ''Texas'', ''2010'' \<mapsto> ''25,145,561''],
       [''State'' \<mapsto> ''TX'', ''2010'' \<mapsto> ''n/a''],
       [''Area'' \<mapsto> ''tx'', ''2010'' \<mapsto> '''', ''Pop2010'' \<mapsto> ''7'']]" "''Texas''" "Fin 7"] e
    by simp
qed

text \<open>
  C3 as stated fails: a row with the population text \<open>-5\<close> stores the negative
  number.
\<close>

theorem populationByState_counterexample:
  "mapGet (populationByState [[''Area'' \<mapsto> ''Texas'', ''2010'' \<mapsto> ''-5'']]) ''Texas'' = Some (Fin (- 5))
   \<and> (- 5 :: real) < 0"
proof -
  have "mapGet (populationByState [[''Area'' \<mapsto> ''Texas'', ''2010'' \<mapsto> ''-5'']]) ''Texas'' = Some (Fin (- 5))"
    by code_simp
  then show ?thesis by simp
qed

section \<open>Properties of the proportions\<close>

lemma jsOr_same: "jsOr a a = a"
  by (simp add: jsOr_def)

lemma lessThanVeryWellRow_map_of:
  "map_of (lessThanVeryWellRow m d) k =
     (case parseSpeakers (LessThanVeryWell d) of
        Some c \<Rightarrow> if stateKeyOf d = k then Some (numOrZero (map_of m k) + c) else map_of m k
      | None \<Rightarrow> map_of m k)"
  by (auto simp: lessThanVeryWellRow_def jsOr_same Let_def mapGet_def map_of_mapSet split: option.splits)

lemma lessThanVeryWellRow_distinct:
  "distinct (map fst m) \<Longrightarrow> distinct (map fst (lessThanVeryWellRow m d))"
  by (auto simp: lessThanVeryWellRow_def Let_def distinct_mapSet split: option.splits)

lemma englishLessThanVeryWellByState_snoc:
  "englishLessThanVeryWellByState (ds @ [d]) = lessThanVeryWellRow (englishLessThanVeryWellByState ds) d"
  by (simp add: englishLessThanVeryWellByState_def)

lemma englishLessThanVeryWellByState_distinct:
  "distinct (map fst (englishLessThanVeryWellByState ds))"
proof (induction ds rule: rev_induct)
  case Nil
  show ?case by (simp add: englishLessThanVeryWellByState_def)
next
  case (snoc d ds)
  then show ?case
    by (simp add: englishLessThanVeryWellByState_snoc lessThanVeryWellRow_distinct)
qed

lemma countsFor_snoc:
  "countsFor k (ds @ [d]) =
     countsFor k ds @ (case parseSpeakers (LessThanVeryWell d) of
                         Some c \<Rightarrow> if stateKeyOf d = k then [c] else []
                       | None \<Rightarrow> [])"
  by (simp add: countsFor_def List.map_filter_def split: option.splits)

lemma englishLessThanVeryWellByState_map_of:
  "map_of (englishLessThanVeryWellByState ds) k =
     (if countsFor k ds = [] then None else Some (sum_list (countsFor k ds)))"
proof (induction ds rule: rev_induct)
  case Nil
  show ?case by (simp add: englishLessThanVeryWellByState_def countsFor_def List.map_filter_def)
next
  case (snoc d ds)
  show ?case
    unfolding englishLessThanVeryWellByState_snoc lessThanVeryWellRow_map_of countsFor_snoc snoc
    by (simp add: numOrZero_def split: option.splits)
qed

lemma proportionRow_map_of:
  "map_of (proportionRow pop m (s, c)) k =
     (if k = s then Some (jsMul (jsDiv (Fin c) (popOrOne (mapGet pop s))) (Fin 100)) else map_of m k)"
  by (simp add: proportionRow_def Let_def map_of_mapSet)

lemma proportions_fold:
  "distinct (map fst byState) \<Longrightarrow>
     map_of (foldl (proportionRow pop) m byState) k =
       (case map_of byState k of
          Some c \<Rightarrow> Some (jsMul (jsDiv (Fin c) (popOrOne (mapGet pop k))) (Fin 100))
        | None \<Rightarrow> map_of m k)"
proof (induction byState arbitrary: m)
  case Nil
  show ?case by simp
next
  case (Cons e es)
  obtain s c where e: "e = (s, c)" by (cases e)
  from Cons.prems e have notin: "map_of es s = None"
    by (simp add: map_of_eq_None_iff)
  from Cons.prems have "distinct (map fst es)" by simp
  note IH = Cons.IH [OF this]
  show ?case
    unfolding e foldl_Cons IH proportionRow_map_of
    using notin by (auto split: option.splits)
qed

lemma popOrOne_guard: "popOrOne x \<noteq> Fin 0 \<and> popOrOne x \<noteq> NaN"
  by (auto simp: popOrOne_def split: option.splits)

lemma proportion_value:
  "jsMul (jsDiv (Fin count) (popOrOne x)) (Fin 100) =
     (case x of
        Some (Fin p) \<Rightarrow> if p = 0 then Fin (count * 100) else Fin (count / p * 100)
      | Some PosInf \<Rightarrow> Fin 0
      | Some NegInf \<Rightarrow> Fin 0
      | Some NaN \<Rightarrow> Fin (count * 100)
      | None \<Rightarrow> Fin (count * 100))"
  by (simp add: popOrOne_def split: option.splits jsnum.splits)

text \<open>
  C9 (as the code has it). For a state that has a parsed count, the count is the sum of
  the parsed counts of its rows, and the proportion is the count divided by the divisor,
  times 100. The divisor is the population of the state, or 1 when the population is
  unknown or zero, so it is never zero. With an unknown population the proportion is
  100 times the count. No nationwide population enters the computation.
\<close>

theorem englishProficiencyProportions_value:
  "mapGet (englishLessThanVeryWellByState languageData) state = Some count \<longrightarrow>
     count = sum_list (countsFor state languageData)
     \<and> popOrOne (mapGet popByState state) \<noteq> Fin 0
     \<and> popOrOne (mapGet popByState state) \<noteq> NaN
     \<and> mapGet (englishProficiencyProportions popByState (englishLessThanVeryWellByState languageData)) state =
         Some (jsMul (jsDiv (Fin count) (popOrOne (mapGet popByState state))) (Fin 100))
     \<and> jsMul (jsDiv (Fin count) (popOrOne (mapGet popByState state))) (Fin 100) =
         (case mapGet popByState state of
            Some (Fin p) \<Rightarrow> if p = 0 then Fin (count * 100) else Fin (count / p * 100)
          | Some PosInf \<Rightarrow> Fin 0
          | Some NegInf \<Rightarrow> Fin 0
          | Some NaN \<Rightarrow> Fin (count * 100)
          | None \<Rightarrow> Fin (count * 100))"
proof
  assume c: "mapGet (englishLessThanVeryWellByState languageData) state = Some count"
  then have sum: "count = sum_list (countsFor state languageData)"
    by (simp add: mapGet_def englishLessThanVeryWellByState_map_of split: if_splits)
  have "mapGet (englishProficiencyProportions popByState (englishLessThanVeryWellByState languageData)) state =
         Some (jsMul (jsDiv (Fin count) (popOrOne (mapGet popByState state))) (Fin 100))"
    using c proportions_fold [OF englishLessThanVeryWellByState_distinct, of popByState "[]" languageData state]
    by (simp add: mapGet_def englishProficiencyProportions_def)
  with sum show "count = sum_list (countsFor state languageData)
     \<and> popOrOne (mapGet popByState state) \<noteq> Fin 0
     \<and> popOrOne (mapGet popByState state) \<noteq> NaN
     \<and> mapGet (englishProficiencyProportions popByState (englishLessThanVeryWellByState languageData)) state =
         Some (jsMul (jsDiv (Fin count) (popOrOne (mapGet popByState state))) (Fin 100))
     \<and> jsMul (jsDiv (Fin count) (popOrOne (mapGet popByState state))) (Fin 100) =
         (case mapGet popByState state of
            Some (Fin p) \<Rightarrow> if p = 0 then Fin (count * 100) else Fin (count / p * 100)
          | Some PosInf \<Rightarrow> Fin 0
          | Some NegInf \<Rightarrow> Fin 0
          | Some NaN \<Rightarrow> Fin (count * 100)
          | None \<Rightarrow> Fin (count * 100))"
    using popOrOne_guard [of "mapGet popByState state"] proportion_value [of count "mapGet popByState state"]
    by blast
qed

theorem englishProficiencyProportions_value_witness:
  "mapGet (englishLessThanVeryWellByState
       [\<lparr>State = Some ''TX'', Language = Some ''Spanish'', Speakers = None,
          LessThanVeryWell = Some ''1,000'', MarginOfError = None\<rparr>,
        \<lparr>State = Some ''Texas'', Language = Some ''Vietnamese'', Speakers = None,
          LessThanVeryWell = Some ''500'', MarginOfError = None\<rparr>]) ''Texas'' = Some 1500
   \<and> mapGet (englishProficiencyProportions [(''Texas'', Fin 30000)]
       (englishLessThanVeryWellByState
         [\<lparr>State = Some ''TX'', Language = Some ''Spanish'', Speakers = None,
            LessThanVeryWell = Some ''1,000'', MarginOfError = None\<rparr>,
          \<lparr>State = Some ''Texas'', Language = Some ''Vietnamese'', Speakers = None,
            LessThanVeryWell = Some ''500'', MarginOfError = None\<rparr>])) ''Texas'' = Some (Fin 5)"
proof -
  let ?ds = "[\<lparr>State = Some ''TX'', Language = Some ''Spanish'', Speakers = None,
          LessThanVeryWell = Some ''1,000'', MarginOfError = None\<rparr>,
        \<lparr>State = Some ''Texas'', Language = Some ''Vietnamese'', Speakers = None,
          LessThanVeryWell = Some ''500'', MarginOfError = None\<rparr>]"
  have e: "mapGet (englishLessThanVeryWellByState ?ds) ''Texas'' = Some 1500"
    by code_simp
  show ?thesis
    using englishProficiencyProportions_value [of ?ds "''Texas''" 1500 "[(''Texas'', Fin 30000)]"] e
    by (simp add: mapGet_def popOrOne_def)
qed

text \<open>
  C9 as stated fails on the unknown population: a count of 5000 in a state without a
  population gives the proportion 500000, which is not near zero.
\<close>

theorem englishProficiencyProportions_counterexample:
  "mapGet (populationByState []) ''Atlantis'' = None
   \<and> mapGet (englishProficiencyProportions (populationByState [])
       (englishLessThanVeryWellByState
         [\<lparr>State = Some ''Atlantis'', Language = Some ''Greek'', Speakers = None,
            LessThanVeryWell = Some ''5,000'', MarginOfError = None\<rparr>])) ''Atlantis'' = Some (Fin 500000)"
  by code_simp

end
